theory Spec2Isabelle
  imports Main
begin

section \<open>Values, dictionaries and errors\<close>

text \<open>
  The Python values that flow through \<^verbatim>\<open>starlite/request.py\<close>: \<open>None\<close>, booleans,
  integers, strings, lists, dictionaries with string keys (in insertion order) and
  \<open>UploadFile\<close> handles (identified by their file name).
\<close>

datatype pyval =
    VNone
  | VBool bool
  | VInt int
  | VStr string
  | VList "pyval list"
  | VDict "(string \<times> pyval) list"
  | VFile string

type_synonym pydict = "(string \<times> pyval) list"

text \<open>Python's truth test, as used by \<open>if x:\<close>, \<open>x and y\<close> and \<open>not x\<close>.\<close>

fun truthy :: "pyval \<Rightarrow> bool" where
  "truthy VNone = False"
| "truthy (VBool b) = b"
| "truthy (VInt i) = (i \<noteq> 0)"
| "truthy (VStr s) = (s \<noteq> [])"
| "truthy (VList l) = (l \<noteq> [])"
| "truthy (VDict d) = (d \<noteq> [])"
| "truthy (VFile f) = True"

text \<open>
  The exceptions the module raises or lets through. \<open>ValidationException p a\<close> carries the
  message as the literal prefix \<open>p\<close> and the value \<open>a\<close> formatted after it by the f-string
  \<^verbatim>\<open>f"Missing required parameter {parameter_name}"\<close>.
\<close>

datatype error =
    ImproperlyConfiguredException string
  | ValidationException string pyval
  | KeyError string
  | TypeError
  | JSONDecodeError

text \<open>
  A \<open>dict\<close> keeps its keys in insertion order: \<open>d[k] = v\<close> replaces the value in place when
  \<open>k\<close> is present and appends the pair otherwise; \<open>d.get(k)\<close> is \<open>None\<close> for a missing key.
\<close>

fun dict_set :: "(string \<times> 'v) list \<Rightarrow> string \<Rightarrow> 'v \<Rightarrow> (string \<times> 'v) list" where
  "dict_set [] k v = [(k, v)]"
| "dict_set ((k', v') # d) k v = (if k' = k then (k, v) # d else (k', v') # dict_set d k v)"

definition dict_get :: "pydict \<Rightarrow> string \<Rightarrow> pyval" where
  "dict_get d k = (case map_of d k of None \<Rightarrow> VNone | Some v \<Rightarrow> v)"

definition keys :: "(string \<times> 'v) list \<Rightarrow> string list" where
  "keys d = map fst d"

definition dict_values :: "(string \<times> 'v) list \<Rightarrow> 'v list" where
  "dict_values d = map snd d"

text \<open>\<open>{**a, **b}\<close>: the pairs of \<open>a\<close>, then each pair of \<open>b\<close> stored in turn.\<close>

fun dict_merge :: "(string \<times> 'v) list \<Rightarrow> (string \<times> 'v) list \<Rightarrow> (string \<times> 'v) list" where
  "dict_merge a [] = a"
| "dict_merge a ((k, v) # b) = dict_merge (dict_set a k v) b"

text \<open>
  Unpacking \<open>[*x, value]\<close> iterates \<open>x\<close>: a list yields its elements, a string its characters,
  a dictionary its keys; any other value raises \<open>TypeError\<close>.
\<close>

fun iterate :: "pyval \<Rightarrow> error + pyval list" where
  "iterate (VList l) = Inr l"
| "iterate (VStr s) = Inr (map (\<lambda>c. VStr [c]) s)"
| "iterate (VDict d) = Inr (map (\<lambda>kv. VStr (fst kv)) d)"
| "iterate _ = Inl TypeError"

fun is_str :: "pyval \<Rightarrow> bool" where
  "is_str (VStr s) = True"
| "is_str _ = False"

text \<open>
  Subscripting a string-keyed dictionary with an arbitrary value: a string finds its entry
  or raises \<open>KeyError\<close>; an unhashable key (list, dictionary) raises \<open>TypeError\<close>; any
  other value equals no string key, so it raises \<open>KeyError\<close>.
\<close>

fun key_repr :: "pyval \<Rightarrow> string" where
  "key_repr (VStr a) = a"
| "key_repr _ = []"

fun subscript :: "pydict \<Rightarrow> pyval \<Rightarrow> error + pyval" where
  "subscript d (VStr a) = (case map_of d a of None \<Rightarrow> Inl (KeyError a) | Some v \<Rightarrow> Inr v)"
| "subscript d (VList l) = Inl TypeError"
| "subscript d (VDict e) = Inl TypeError"
| "subscript d k = Inl (KeyError (key_repr k))"

section \<open>External collaborators\<close>

text \<open>
  \<open>urllib.parse.parse_qsl\<close> (called with \<open>keep_blank_values=True\<close>) and \<open>orjson.loads\<close> are
  library functions; the module is modelled for any pair of them. \<open>loads\<close> returns \<open>None\<close>
  where orjson raises \<open>JSONDecodeError\<close>.
\<close>

record externals =
  parse_qsl :: "string \<Rightarrow> (string \<times> string) list"
  loads :: "string \<Rightarrow> pyval option"

section \<open>The connection and the field descriptors\<close>

text \<open>
  \<open>isinstance(connection, Request)\<close> and \<open>isinstance(connection, WebSocket)\<close> tell the two
  variants apart; the signature admits any \<open>HTTPConnection\<close>, which is neither.
\<close>

datatype conn_kind = Request | WebSocket | HTTPConnection

text \<open>An item of the form payload: a plain string or an \<open>UploadFile\<close> handle.\<close>

datatype formval = FormStr string | FormFile string

record connection =
  kind :: conn_kind
  http_method :: string
  path_params :: pydict
  query_string :: "string option"
  headers :: "(string \<times> string) list"
  cookies :: pydict
  app_state :: pyval
  body :: string
  form :: "(string \<times> formval) list"

text \<open>
  \<open>query_string\<close> is \<open>None\<close> when the scope has no \<open>"query_string"\<close> key (a byte string is
  taken after its Latin-1 decoding). \<open>http_method\<close> is \<open>request.method\<close>, \<open>headers\<close> are the
  raw header items, \<open>body\<close> the bytes \<open>request.body()\<close> returns and \<open>form\<close> the
  \<open>multi_items()\<close> of what \<open>request.form()\<close> returns. \<open>app_state\<close> is
  \<open>connection.app.state\<close>, whose \<open>copy()\<close> is an equal value.
\<close>

datatype pytype = UploadFile | OtherType string

datatype shape = SHAPE_SINGLETON | SHAPE_LIST | SHAPE_OTHER nat

text \<open>
  A pydantic \<open>ModelField\<close>: \<open>default\<close> is \<open>None\<close> for the \<open>Undefined\<close> sentinel,
  \<open>field_type\<close> is \<open>field.type_\<close> and \<open>extra\<close> is \<open>field.field_info.extra\<close>.
\<close>

record ModelField =
  default :: "pyval option"
  shape :: shape
  field_type :: pytype
  extra :: pydict

type_synonym fields = "(string \<times> ModelField) list"

text \<open>
  What reading the body does to the request: \<open>request.body()\<close> and \<open>request.form()\<close> are
  the only I/O of the module, and \<open>request._json\<close> caches the decoded body.
\<close>

record io_state =
  body_reads :: nat
  form_reads :: nat
  json_cache :: "pyval option"

section \<open>Query-string parser\<close>

definition true_values :: "string set" where
  "true_values = {''True'', ''true''}"

definition false_values :: "string set" where
  "false_values = {''False'', ''false''}"

definition query_param_reducer :: "pydict \<Rightarrow> string \<times> string \<Rightarrow> error + pydict" where
  "query_param_reducer acc cur =
     (let key = fst cur;
          value = (if snd cur \<in> true_values then VBool True
                   else if snd cur \<in> false_values then VBool False
                   else VStr (snd cur));
          param = dict_get acc key
      in if truthy param then
           (if is_str param then Inr (dict_set acc key (VList [param, value]))
            else (case iterate param of
                    Inl e \<Rightarrow> Inl e
                  | Inr l \<Rightarrow> Inr (dict_set acc key (VList (l @ [value])))))
         else Inr (dict_set acc key value))"

text \<open>\<open>functools.reduce\<close> with a function that may raise: the first exception ends the fold.\<close>

fun reduce :: "('a \<Rightarrow> 'b \<Rightarrow> error + 'a) \<Rightarrow> 'b list \<Rightarrow> 'a \<Rightarrow> error + 'a" where
  "reduce f [] acc = Inr acc"
| "reduce f (x # xs) acc = (case f acc x of Inl e \<Rightarrow> Inl e | Inr acc' \<Rightarrow> reduce f xs acc')"

definition parse_query_params :: "externals \<Rightarrow> connection \<Rightarrow> error + pydict" where
  "parse_query_params X conn =
     (case query_string conn of
        None \<Rightarrow> Inr []
      | Some qs \<Rightarrow> reduce query_param_reducer (parse_qsl X qs) [])"

section \<open>Body decoder\<close>

text \<open>
  Modelled from the spec: \<open>starlite.enums\<close> is not among the sources. \<open>HttpMethod\<close> and
  \<open>RequestEncodingType\<close> are string enumerations; their members compare equal to their
  string values, the lower-case method name and the media types JSON, multipart and
  url-encoded.
\<close>

definition HttpMethod_GET :: string where
  "HttpMethod_GET = ''get''"

definition RequestEncodingType_JSON :: pyval where
  "RequestEncodingType_JSON = VStr ''application/json''"

definition RequestEncodingType_MULTI_PART :: pyval where
  "RequestEncodingType_MULTI_PART = VStr ''multipart/form-data''"

definition RequestEncodingType_URL_ENCODED :: pyval where
  "RequestEncodingType_URL_ENCODED = VStr ''application/x-www-form-urlencoded''"

text \<open>\<open>str.lower()\<close> on ASCII text.\<close>

definition lower_char :: "char \<Rightarrow> char" where
  "lower_char c =
     (case map_of (zip ''ABCDEFGHIJKLMNOPQRSTUVWXYZ'' ''abcdefghijklmnopqrstuvwxyz'') c of
        None \<Rightarrow> c
      | Some l \<Rightarrow> l)"

definition lower :: "string \<Rightarrow> string" where
  "lower s = map lower_char s"

text \<open>
  The value a form item contributes: a file is kept; a string is replaced by its JSON
  decoding, and kept where \<open>loads\<close> raises (\<open>with suppress(JSONDecodeError)\<close>).
\<close>

definition form_value :: "externals \<Rightarrow> formval \<Rightarrow> pyval" where
  "form_value X value =
     (case value of
        FormFile f \<Rightarrow> VFile f
      | FormStr s \<Rightarrow> (case loads X s of None \<Rightarrow> VStr s | Some j \<Rightarrow> j))"

text \<open>
  Storing a value under a key of \<open>values_dict\<close>: appended when the entry is a list, paired
  with the entry when the entry is some other truthy value, and stored as it is otherwise.
\<close>

definition store_value :: "pydict \<Rightarrow> string \<Rightarrow> pyval \<Rightarrow> pydict" where
  "store_value values_dict key v =
     (let old = dict_get values_dict key
      in if truthy old then
           (case old of
              VList l \<Rightarrow> dict_set values_dict key (VList (l @ [v]))
            | _ \<Rightarrow> dict_set values_dict key (VList [old, v]))
         else dict_set values_dict key v)"

text \<open>The \<open>for key, value in form_data.multi_items()\<close> loop of \<open>handle_multipart\<close>.\<close>

fun values_loop :: "externals \<Rightarrow> (string \<times> formval) list \<Rightarrow> pydict \<Rightarrow> pydict" where
  "values_loop X [] values_dict = values_dict"
| "values_loop X ((key, value) # rest) values_dict =
     values_loop X rest (store_value values_dict key (form_value X value))"

definition handle_multipart ::
  "externals \<Rightarrow> pyval \<Rightarrow> (string \<times> formval) list \<Rightarrow> ModelField \<Rightarrow> pyval" where
  "handle_multipart X media_type form_data field =
     (let values_dict = values_loop X form_data []
      in if media_type = RequestEncodingType_MULTI_PART then
           (if shape field = SHAPE_LIST then VList (dict_values values_dict)
            else if shape field = SHAPE_SINGLETON \<and> field_type field = UploadFile
                    \<and> values_dict \<noteq> []
                 then hd (dict_values values_dict)
            else VDict values_dict)
         else VDict values_dict)"

definition get_request_data ::
  "externals \<Rightarrow> connection \<Rightarrow> ModelField \<Rightarrow> io_state \<Rightarrow> (error + pyval) \<times> io_state" where
  "get_request_data X request field s =
     (if lower (http_method request) = HttpMethod_GET then
        (Inl (ImproperlyConfiguredException
                '''data' kwarg is unsupported for GET requests''), s)
      else
        (let media_type = dict_get (extra field) ''media_type''
         in if \<not> truthy media_type \<or> media_type = RequestEncodingType_JSON then
              (let s1 = s\<lparr>body_reads := Suc (body_reads s)\<rparr>
               in case loads X (body request) of
                    None \<Rightarrow> (Inl JSONDecodeError, s1)
                  | Some json_data \<Rightarrow> (Inr json_data, s1\<lparr>json_cache := Some json_data\<rparr>))
            else
              (let s1 = s\<lparr>form_reads := Suc (form_reads s)\<rparr>
               in (Inr (handle_multipart X media_type (form request) field), s1))))"

section \<open>Connection parameter extractor\<close>

text \<open>
  The \<open>if\<close>/\<open>elif\<close> chain that picks \<open>parameter_name\<close> and \<open>source\<close>; both stay \<open>None\<close>
  when no branch is taken.
\<close>

definition select_source ::
  "connection \<Rightarrow> pydict \<Rightarrow> pydict \<Rightarrow> pydict \<Rightarrow> (pyval \<times> pydict) option" where
  "select_source conn ex query_params header_params =
     (if ''query'' \<in> set (keys ex) \<and> truthy (dict_get ex ''query'')
        then Some (dict_get ex ''query'', query_params)
      else if ''header'' \<in> set (keys ex) \<and> truthy (dict_get ex ''header'')
        then Some (dict_get ex ''header'', header_params)
      else if ''cookie'' \<in> set (keys ex) \<and> truthy (dict_get ex ''cookie'')
        then Some (dict_get ex ''cookie'', cookies conn)
      else None)"

text \<open>
  The block guarded by \<open>if parameter_name and source:\<close>: \<open>extra["required"]\<close> is read
  first (a \<open>KeyError\<close> when the key is missing), then the alias is looked up; only the
  lookup's \<open>KeyError\<close> is caught.
\<close>

definition lookup_parameter :: "pydict \<Rightarrow> pyval \<Rightarrow> pyval \<Rightarrow> pydict \<Rightarrow> error + pyval" where
  "lookup_parameter ex dflt parameter_name source =
     (if truthy parameter_name \<and> source \<noteq> [] then
        (if ''required'' \<in> set (keys ex) then
           (let parameter_is_required = dict_get ex ''required''
            in case subscript source parameter_name of
                 Inr v \<Rightarrow> Inr v
               | Inl (KeyError k) \<Rightarrow>
                   if truthy parameter_is_required \<and> \<not> truthy dflt
                   then Inl (ValidationException ''Missing required parameter '' parameter_name)
                   else Inr dflt
               | Inl e \<Rightarrow> Inl e)
         else Inl (KeyError ''required''))
      else Inr dflt)"

definition get_connection_parameters ::
  "connection \<Rightarrow> string \<Rightarrow> ModelField \<Rightarrow> pydict \<Rightarrow> pydict \<Rightarrow> error + pyval" where
  "get_connection_parameters conn field_name field query_params header_params =
     (if field_name \<in> set (keys (path_params conn)) then
        Inr (dict_get (path_params conn) field_name)
      else if field_name \<in> set (keys query_params) then
        Inr (dict_get query_params field_name)
      else
        (let ex = extra field;
             dflt = (case default field of None \<Rightarrow> VNone | Some d \<Rightarrow> d)
         in if keys ex \<noteq> [] then
              (case select_source conn ex query_params header_params of
                 None \<Rightarrow> Inr dflt
               | Some (parameter_name, source) \<Rightarrow>
                   lookup_parameter ex dflt parameter_name source)
            else Inr dflt))"

section \<open>Kwargs builder\<close>

text \<open>
  A keyword argument is a plain value or, for \<open>request\<close> and \<open>socket\<close>, the connection
  object itself.
\<close>

datatype kwval = Val pyval | Conn connection

type_synonym kwargs = "(string \<times> kwval) list"

text \<open>\<open>dict(connection.headers.items())\<close>: a repeated header keeps its last value.\<close>

fun dict_of_items :: "(string \<times> string) list \<Rightarrow> pydict \<Rightarrow> pydict" where
  "dict_of_items [] d = d"
| "dict_of_items ((k, v) # items) d = dict_of_items items (dict_set d k (VStr v))"

text \<open>
  The body of the \<open>for field_name, field in fields.items()\<close> loop: the value stored
  under \<open>kwargs[field_name]\<close>, or the exception raised.
\<close>

definition field_value ::
  "externals \<Rightarrow> connection \<Rightarrow> pydict \<Rightarrow> pydict \<Rightarrow> string \<Rightarrow> ModelField \<Rightarrow> io_state
     \<Rightarrow> (error + kwval) \<times> io_state" where
  "field_value X conn query_params header_params field_name field s =
     (if field_name = ''state'' then (Inr (Val (app_state conn)), s)
      else if field_name = ''headers'' then (Inr (Val (VDict header_params)), s)
      else if field_name = ''cookies'' then (Inr (Val (VDict (cookies conn))), s)
      else if field_name = ''query'' then (Inr (Val (VDict query_params)), s)
      else if field_name = ''request'' then
        (if kind conn \<noteq> Request then
           (Inl (ImproperlyConfiguredException
                   ''The 'request' kwarg is not supported with websocket handlers''), s)
         else (Inr (Conn conn), s))
      else if field_name = ''socket'' then
        (if kind conn \<noteq> WebSocket then
           (Inl (ImproperlyConfiguredException
                   ''The 'socket' kwarg is not supported with http handlers''), s)
         else (Inr (Conn conn), s))
      else if field_name = ''data'' then
        (if kind conn \<noteq> Request then
           (Inl (ImproperlyConfiguredException
                   ''The 'data' kwarg is not supported with websocket handlers''), s)
         else (case get_request_data X conn field s of
                 (Inl e, s1) \<Rightarrow> (Inl e, s1)
               | (Inr v, s1) \<Rightarrow> (Inr (Val v), s1)))
      else (case get_connection_parameters conn field_name field query_params header_params of
              Inl e \<Rightarrow> (Inl e, s)
            | Inr v \<Rightarrow> (Inr (Val v), s)))"

fun kwargs_loop ::
  "externals \<Rightarrow> connection \<Rightarrow> pydict \<Rightarrow> pydict \<Rightarrow> fields \<Rightarrow> kwargs \<Rightarrow> io_state
     \<Rightarrow> (error + kwargs) \<times> io_state" where
  "kwargs_loop X conn query_params header_params [] kw s = (Inr kw, s)"
| "kwargs_loop X conn query_params header_params ((field_name, field) # rest) kw s =
     (case field_value X conn query_params header_params field_name field s of
        (Inl e, s1) \<Rightarrow> (Inl e, s1)
      | (Inr v, s1) \<Rightarrow>
          kwargs_loop X conn query_params header_params rest (dict_set kw field_name v) s1)"

definition get_model_kwargs_from_connection ::
  "externals \<Rightarrow> connection \<Rightarrow> fields \<Rightarrow> io_state \<Rightarrow> (error + kwargs) \<times> io_state" where
  "get_model_kwargs_from_connection X conn flds s =
     (case parse_query_params X conn of
        Inl e \<Rightarrow> (Inl e, s)
      | Inr query_params \<Rightarrow>
          kwargs_loop X conn query_params (dict_of_items (headers conn) []) flds [] s)"

section \<open>Dependency resolver\<close>

text \<open>
  A \<open>Provide\<close> entry: the fields of \<open>get_signature_model(provider)\<close>, the validation
  \<open>provider_signature_model(**kwargs).dict()\<close> and the awaited call itself, which may
  raise and may read the request.
\<close>

record provider =
  signature_fields :: fields
  validate :: "kwargs \<Rightarrow> error + kwargs"
  call :: "kwargs \<Rightarrow> io_state \<Rightarrow> (error + kwval) \<times> io_state"

type_synonym providers = "(string \<times> provider) list"

text \<open>
  The \<open>for key, provider in providers.items()\<close> loop, with the recursive call of
  \<open>resolve_signature_kwargs\<close> passed in as \<open>resolve\<close>; \<open>None\<close> is a recursion that has not
  returned.
\<close>

fun provider_loop ::
  "(fields \<Rightarrow> io_state \<Rightarrow> ((error + kwargs) \<times> io_state) option) \<Rightarrow> fields \<Rightarrow> providers
     \<Rightarrow> kwargs \<Rightarrow> io_state \<Rightarrow> ((error + kwargs) \<times> io_state) option" where
  "provider_loop resolve flds [] dependencies s = Some (Inr dependencies, s)"
| "provider_loop resolve flds ((key, p) # rest) dependencies s =
     (if key \<in> set (keys flds) then
        (case resolve (signature_fields p) s of
           None \<Rightarrow> None
         | Some (Inl e, s1) \<Rightarrow> Some (Inl e, s1)
         | Some (Inr provider_kwargs, s1) \<Rightarrow>
             (case validate p provider_kwargs of
                Inl e \<Rightarrow> Some (Inl e, s1)
              | Inr validated \<Rightarrow>
                  (case call p validated s1 of
                     (Inl e, s2) \<Rightarrow> Some (Inl e, s2)
                   | (Inr v, s2) \<Rightarrow>
                       provider_loop resolve flds rest (dict_set dependencies key v) s2)))
      else provider_loop resolve flds rest dependencies s)"

text \<open>
  \<open>resolve_signature_kwargs\<close> recurses through the provider table with no cycle check,
  so the recursion depth is the first argument: at depth \<open>0\<close> the call has not returned.
\<close>

primrec resolve_signature_kwargs ::
  "nat \<Rightarrow> externals \<Rightarrow> connection \<Rightarrow> providers \<Rightarrow> fields \<Rightarrow> io_state
     \<Rightarrow> ((error + kwargs) \<times> io_state) option" where
  "resolve_signature_kwargs 0 = (\<lambda>X conn provs flds s. None)"
| "resolve_signature_kwargs (Suc n) = (\<lambda>X conn provs flds s.
     (case provider_loop (resolve_signature_kwargs n X conn provs) flds provs [] s of
        None \<Rightarrow> None
      | Some (Inl e, s1) \<Rightarrow> Some (Inl e, s1)
      | Some (Inr dependencies, s1) \<Rightarrow>
          (case get_model_kwargs_from_connection X conn
                  (filter (\<lambda>kv. fst kv \<notin> set (keys dependencies)) flds) s1 of
             (Inl e, s2) \<Rightarrow> Some (Inl e, s2)
           | (Inr connection_kwargs, s2) \<Rightarrow>
               Some (Inr (dict_merge connection_kwargs dependencies), s2))))"

section \<open>Auxiliary definitions for the statements\<close>

text \<open>
  \<open>plain_qsl\<close> is \<open>parse_qsl\<close> with \<open>keep_blank_values=True\<close> on query strings without
  percent escapes or \<open>+\<close>: the non-empty pieces between \<open>&\<close>, each cut at its first \<open>=\<close>.
  It instantiates \<open>parse_qsl\<close> in the concrete examples.
\<close>

fun split_at :: "char \<Rightarrow> string \<Rightarrow> string list" where
  "split_at c [] = [[]]"
| "split_at c (x # xs) =
     (if x = c then [] # split_at c xs
      else (case split_at c xs of [] \<Rightarrow> [[x]] | p # ps \<Rightarrow> (x # p) # ps))"

definition plain_qsl :: "string \<Rightarrow> (string \<times> string) list" where
  "plain_qsl s =
     map (\<lambda>p. (takeWhile (\<lambda>c. c \<noteq> CHR ''='') p, drop 1 (dropWhile (\<lambda>c. c \<noteq> CHR ''='') p)))
       (filter (\<lambda>p. p \<noteq> []) (split_at CHR ''&'' s))"

text \<open>The keys of a list of items in the order of their first occurrence.\<close>

fun first_seen :: "string list \<Rightarrow> string list" where
  "first_seen [] = []"
| "first_seen (k # ks) = k # filter (\<lambda>x. x \<noteq> k) (first_seen ks)"

section \<open>Concrete inputs\<close>

text \<open>
  A JSON decoder defined on the few texts the examples use, and failing elsewhere, stands
  for \<open>orjson.loads\<close>.
\<close>

definition demo_loads :: "string \<Rightarrow> pyval option" where
  "demo_loads s =
     (if s = ''1'' then Some (VInt 1)
      else if s = ''2'' then Some (VInt 2)
      else if s = ''{\"id\": 5}'' then Some (VDict [(''id'', VInt 5)])
      else None)"

definition demo_externals :: externals where
  "demo_externals = \<lparr>parse_qsl = plain_qsl, loads = demo_loads\<rparr>"

definition upload_field :: ModelField where
  "upload_field = \<lparr>default = None, shape = SHAPE_SINGLETON, field_type = UploadFile,
     extra = [(''media_type'', RequestEncodingType_MULTI_PART)]\<rparr>"

definition demo_request :: connection where
  "demo_request = \<lparr>kind = Request, http_method = ''POST'', path_params = [(''id'', VStr ''7'')],
     query_string = Some ''id=9&page=2'', headers = [(''x-token'', ''t0'')],
     cookies = [(''sid'', VStr ''c0'')], app_state = VDict [(''debug'', VBool True)],
     body = ''{\"id\": 5}'', form = [(''f'', FormFile ''a.txt'')]\<rparr>"

definition io0 :: io_state where
  "io0 = \<lparr>body_reads = 0, form_reads = 0, json_cache = None\<rparr>"

definition json_field :: ModelField where
  "json_field = \<lparr>default = None, shape = SHAPE_SINGLETON, field_type = OtherType ''dict'',
     extra = []\<rparr>"

text \<open>
  The names the kwargs builder treats specially, in the order of its \<open>if\<close>/\<open>elif\<close> chain,
  a provider without parameters that returns a fixed value, and a field with a default.
\<close>

definition data_provider :: provider where
  "data_provider = \<lparr>signature_fields = [], validate = (\<lambda>kw. Inr kw),
     call = (\<lambda>kw s. (Inr (Val (VStr ''provided'')), s))\<rparr>"

definition page_field :: ModelField where
  "page_field = \<lparr>default = Some (VInt 1), shape = SHAPE_SINGLETON, field_type = OtherType ''int'',
     extra = []\<rparr>"

definition reserved_names :: "string list" where
  "reserved_names = [''state'', ''headers'', ''cookies'', ''query'', ''request'', ''socket'', ''data'']"

text \<open>A field with a falsy default and all three aliases declared.\<close>

definition limit_field :: ModelField where
  "limit_field = \<lparr>default = Some (VInt 0), shape = SHAPE_SINGLETON, field_type = OtherType ''int'',
     extra = [(''query'', VStr ''q''), (''header'', VStr ''x-token''), (''cookie'', VStr ''sid''),
              (''required'', VBool True)]\<rparr>"

section \<open>Dictionaries\<close>

lemma keys_dict_set:
  "keys (dict_set d k v) = (if k \<in> set (keys d) then keys d else keys d @ [k])"
  by (induction d) (force simp: keys_def)+

lemma set_keys_dict_set: "set (keys (dict_set d k v)) = insert k (set (keys d))"
  by (auto simp: keys_dict_set)

lemma distinct_keys_dict_set: "distinct (keys d) \<Longrightarrow> distinct (keys (dict_set d k v))"
  by (simp add: keys_dict_set)

lemma map_of_dict_set: "map_of (dict_set d k v) = (map_of d)(k \<mapsto> v)"
  by (induction d) (auto simp: fun_eq_iff)

section \<open>Query-string parser: repeated keys\<close>

text \<open>
  C2. Folding the pairs of \<open>a=1&a=2\<close> promotes the first value to a list and appends the
  second. The promotion is guarded by the truth value of the stored entry, not by the
  presence of the key: after \<open>a=true\<close> the entry is the boolean \<open>True\<close>, which is neither a
  string nor iterable, so a second \<open>a\<close> raises \<open>TypeError\<close>; after the blank \<open>a=\<close> the
  entry is falsy and a second \<open>a\<close> overwrites it instead of promoting it.
\<close>

theorem C2_repeated_key_after_boolean:
  "parse_query_params \<lparr>parse_qsl = plain_qsl, loads = l\<rparr>
       (conn\<lparr>query_string := Some ''a=1&a=2''\<rparr>)
     = Inr [(''a'', VList [VStr ''1'', VStr ''2''])]
   \<and> parse_query_params \<lparr>parse_qsl = plain_qsl, loads = l\<rparr>
       (conn\<lparr>query_string := Some ''a=true&a=2''\<rparr>)
     = Inl TypeError
   \<and> parse_query_params \<lparr>parse_qsl = plain_qsl, loads = l\<rparr>
       (conn\<lparr>query_string := Some ''a=&a=2''\<rparr>)
     = Inr [(''a'', VStr ''2'')]"
  by (simp add: parse_query_params_def plain_qsl_def query_param_reducer_def dict_get_def
      true_values_def false_values_def)

section \<open>Body decoder: shaping of form data\<close>

lemma keys_store_value:
  "keys (store_value d k v) = (if k \<in> set (keys d) then keys d else keys d @ [k])"
  by (simp add: store_value_def Let_def keys_dict_set split: pyval.splits)

lemma keys_values_loop:
  "keys (values_loop X form_data d) =
     keys d @ filter (\<lambda>k. k \<notin> set (keys d)) (first_seen (map fst form_data))"
proof (induction form_data arbitrary: d)
  case Nil
  then show ?case by simp
next
  case (Cons kv rest)
  obtain key v where kv: "kv = (key, v)" by (cases kv)
  show ?case
    unfolding kv
    by (auto simp: Cons.IH keys_store_value intro!: filter_cong)
qed

text \<open>
  C6. \<open>handle_multipart\<close> accumulates the form items into a dictionary whose keys stand in
  the order they were first seen. For the multipart media type it returns the values
  alone when the field's shape is list, and the first value alone when the shape is
  singleton, the field's type is \<open>UploadFile\<close> and the dictionary is not empty. In every
  other case, and for url-encoded data whatever the shape, it returns the dictionary.
\<close>

theorem C6_handle_multipart_shape:
  "handle_multipart X media_type form_data field =
     (if media_type = RequestEncodingType_MULTI_PART \<and> shape field = SHAPE_LIST
        then VList (dict_values (values_loop X form_data []))
      else if media_type = RequestEncodingType_MULTI_PART \<and> shape field = SHAPE_SINGLETON
              \<and> field_type field = UploadFile \<and> values_loop X form_data [] \<noteq> []
        then hd (dict_values (values_loop X form_data []))
      else VDict (values_loop X form_data []))
   \<and> keys (values_loop X form_data []) = first_seen (map fst form_data)
   \<and> length (dict_values (values_loop X form_data [])) = length (first_seen (map fst form_data))
   \<and> handle_multipart X RequestEncodingType_URL_ENCODED form_data field
       = VDict (values_loop X form_data [])"
proof -
  have k: "keys (values_loop X form_data []) = first_seen (map fst form_data)"
    using keys_values_loop [of X form_data "[]"] by (simp add: keys_def)
  have "length (dict_values (values_loop X form_data []))
          = length (keys (values_loop X form_data []))"
    by (simp add: dict_values_def keys_def)
  then have l: "length (dict_values (values_loop X form_data []))
                  = length (first_seen (map fst form_data))"
    by (simp add: k)
  have u: "RequestEncodingType_URL_ENCODED \<noteq> RequestEncodingType_MULTI_PART"
    by (simp add: RequestEncodingType_URL_ENCODED_def RequestEncodingType_MULTI_PART_def)
  show ?thesis
    using k l u by (simp add: handle_multipart_def Let_def)
qed

theorem C6_handle_multipart_shape_witness:
  "handle_multipart demo_externals RequestEncodingType_MULTI_PART
     [(''x'', FormStr ''1''), (''y'', FormStr ''b''), (''x'', FormStr ''2'')]
     (upload_field\<lparr>shape := SHAPE_LIST\<rparr>)
     = VList [VList [VInt 1, VInt 2], VStr ''b'']
   \<and> handle_multipart demo_externals RequestEncodingType_MULTI_PART
     [(''f'', FormFile ''a.txt'')] upload_field = VFile ''a.txt''
   \<and> handle_multipart demo_externals RequestEncodingType_URL_ENCODED
     [(''f'', FormFile ''a.txt'')] upload_field = VDict [(''f'', VFile ''a.txt'')]"
  using C6_handle_multipart_shape [of demo_externals RequestEncodingType_MULTI_PART
      "[(''x'', FormStr ''1''), (''y'', FormStr ''b''), (''x'', FormStr ''2'')]"
      "upload_field\<lparr>shape := SHAPE_LIST\<rparr>"]
    C6_handle_multipart_shape [of demo_externals
      RequestEncodingType_MULTI_PART "[(''f'', FormFile ''a.txt'')]" upload_field]
  by (simp add: upload_field_def demo_externals_def demo_loads_def form_value_def dict_get_def
      store_value_def dict_values_def RequestEncodingType_MULTI_PART_def
      RequestEncodingType_URL_ENCODED_def)

section \<open>Kwargs builder: propagation of errors and I/O\<close>

lemma lower_GET: "lower ''GET'' = HttpMethod_GET"
  by (simp add: lower_def lower_char_def HttpMethod_GET_def)

lemma lower_POST: "lower ''POST'' \<noteq> HttpMethod_GET"
  by (simp add: lower_def lower_char_def HttpMethod_GET_def)

text \<open>A field whose dispatch raises makes the loop raise: the builder cannot return normally.\<close>

lemma kwargs_loop_raises:
  assumes "(name, field) \<in> set flds"
    and "\<And>s. \<exists>e s'. field_value X conn q h name field s = (Inl e, s')"
  shows "\<exists>e s'. kwargs_loop X conn q h flds kw s = (Inl e, s')"
  using assms(1)
proof (induction flds arbitrary: kw s)
  case Nil
  then show ?case by simp
next
  case (Cons nf rest)
  obtain n f where nf: "nf = (n, f)" by (cases nf)
  show ?case
  proof (cases "field_value X conn q h n f s")
    case (Pair r s1)
    show ?thesis
    proof (cases r)
      case (Inl e)
      then show ?thesis using Pair nf by simp
    next
      case (Inr v)
      have "nf \<noteq> (name, field)"
      proof
        assume "nf = (name, field)"
        then have "field_value X conn q h name field s = (Inr v, s1)" using Pair Inr nf by simp
        then show False using assms(2) [of s] by auto
      qed
      then have "(name, field) \<in> set rest" using Cons.prems by auto
      then show ?thesis using Cons.IH Pair Inr nf by simp
    qed
  qed
qed

text \<open>Only the \<open>data\<close> field of a request that is not a GET reads the body.\<close>

lemma field_value_no_io:
  "lower (http_method conn) = HttpMethod_GET \<or> kind conn \<noteq> Request \<or> name \<noteq> ''data''
     \<Longrightarrow> snd (field_value X conn q h name field s) = s"
  by (auto simp: field_value_def get_request_data_def split: sum.splits prod.splits)

lemma kwargs_loop_no_io:
  "lower (http_method conn) = HttpMethod_GET \<or> kind conn \<noteq> Request
     \<Longrightarrow> snd (kwargs_loop X conn q h flds kw s) = s"
proof (induction flds arbitrary: kw s)
  case Nil
  then show ?case by simp
next
  case (Cons nf rest)
  obtain n f where nf: "nf = (n, f)" by (cases nf)
  have "snd (field_value X conn q h n f s) = s"
    using Cons.prems by (intro field_value_no_io) auto
  then show ?case
    using Cons.IH [OF Cons.prems] nf
    by (auto split: prod.splits sum.splits)
qed

lemma data_field_present:
  "''data'' \<in> set (keys flds) \<Longrightarrow> \<exists>field. (''data'', field) \<in> set flds"
  by (auto simp: keys_def)

text \<open>
  C5. For a request whose method is GET, decoding the body for a \<open>data\<close> field raises
  \<open>ImproperlyConfiguredException\<close>, which is not a \<open>ValidationException\<close>, and leaves the
  I/O state as it was: neither the body nor the form has been read. The kwargs builder,
  given such a request and a field set with a \<open>data\<close> field, raises with the I/O state
  untouched as well.
\<close>

theorem C5_data_on_get_is_configuration_error:
  assumes "lower (http_method request) = HttpMethod_GET"
  shows "get_request_data X request field s =
           (Inl (ImproperlyConfiguredException '''data' kwarg is unsupported for GET requests''), s)
         \<and> fst (get_request_data X request field s) \<noteq> Inl (ValidationException p a)
         \<and> (kind request = Request \<longrightarrow>
              field_value X request q h ''data'' field s =
                (Inl (ImproperlyConfiguredException
                        '''data' kwarg is unsupported for GET requests''), s))
         \<and> (kind request = Request \<and> ''data'' \<in> set (keys flds) \<longrightarrow>
              (\<exists>e. get_model_kwargs_from_connection X request flds s = (Inl e, s)))"
proof -
  have g: "\<And>f t. get_request_data X request f t =
           (Inl (ImproperlyConfiguredException '''data' kwarg is unsupported for GET requests''), t)"
    using assms by (simp add: get_request_data_def)
  have fv: "\<And>f t qq hh. kind request = Request \<Longrightarrow>
       field_value X request qq hh ''data'' f t =
         (Inl (ImproperlyConfiguredException '''data' kwarg is unsupported for GET requests''), t)"
    by (simp add: field_value_def g)
  have b: "\<exists>e. get_model_kwargs_from_connection X request flds s = (Inl e, s)"
    if k: "kind request = Request" and d: "''data'' \<in> set (keys flds)"
  proof (cases "parse_query_params X request")
    case (Inl e)
    then show ?thesis by (simp add: get_model_kwargs_from_connection_def)
  next
    case (Inr qp)
    obtain f where f: "(''data'', f) \<in> set flds" using data_field_present [OF d] by blast
    let ?hp = "dict_of_items (headers request) []"
    have "\<exists>e s'. kwargs_loop X request qp ?hp flds [] s = (Inl e, s')"
      using f by (rule kwargs_loop_raises) (simp add: fv [OF k])
    then obtain e s' where r: "kwargs_loop X request qp ?hp flds [] s = (Inl e, s')" by blast
    have "snd (kwargs_loop X request qp ?hp flds [] s) = s"
      using assms by (intro kwargs_loop_no_io) simp
    then have "s' = s" using r by simp
    then show ?thesis using r Inr by (simp add: get_model_kwargs_from_connection_def)
  qed
  show ?thesis using g fv b by simp
qed

theorem C5_data_on_get_is_configuration_error_witness:
  "lower (http_method (demo_request\<lparr>http_method := ''GET''\<rparr>)) = HttpMethod_GET
   \<and> get_request_data demo_externals (demo_request\<lparr>http_method := ''GET''\<rparr>) json_field io0 =
       (Inl (ImproperlyConfiguredException '''data' kwarg is unsupported for GET requests''), io0)
   \<and> (\<exists>e. get_model_kwargs_from_connection demo_externals
            (demo_request\<lparr>http_method := ''GET''\<rparr>) [(''query'', json_field), (''data'', json_field)] io0
          = (Inl e, io0))"
proof -
  have m: "lower (http_method (demo_request\<lparr>http_method := ''GET''\<rparr>)) = HttpMethod_GET"
    by (simp add: lower_GET)
  have k: "kind (demo_request\<lparr>http_method := ''GET''\<rparr>) = Request
           \<and> ''data'' \<in> set (keys [(''query'', json_field), (''data'', json_field)])"
    by (simp add: demo_request_def keys_def)
  show ?thesis
    using m k C5_data_on_get_is_configuration_error [OF m, of demo_externals json_field io0 _ _ _ _
        "[(''query'', json_field), (''data'', json_field)]"]
    by blast
qed

lemma values_loop_append:
  "values_loop X (a @ b) d = values_loop X b (values_loop X a d)"
  by (induction a arbitrary: d) auto

text \<open>
  C7. A form item that is a string which \<open>loads\<close> cannot decode is stored as the raw
  string, and decoding a form never raises: with a form media type and a method other
  than GET \<open>get_request_data\<close> returns the shaped form data. With no media type or the
  JSON media type, a body that \<open>loads\<close> cannot decode makes \<open>get_request_data\<close> raise
  \<open>JSONDecodeError\<close> after the one body read, and the kwargs builder of a request with
  that \<open>data\<close> field cannot return normally.
\<close>

theorem C7_form_decode_swallowed_body_decode_fatal:
  "(loads X v = None \<longrightarrow>
      form_value X (FormStr v) = VStr v
      \<and> values_loop X (items @ [(key, FormStr v)]) d
          = store_value (values_loop X items d) key (VStr v))
   \<and> (lower (http_method request) \<noteq> HttpMethod_GET
        \<and> truthy (dict_get (extra field) ''media_type'')
        \<and> dict_get (extra field) ''media_type'' \<noteq> RequestEncodingType_JSON \<longrightarrow>
      fst (get_request_data X request field s)
        = Inr (handle_multipart X (dict_get (extra field) ''media_type'') (form request) field))
   \<and> (lower (http_method request) \<noteq> HttpMethod_GET
        \<and> (\<not> truthy (dict_get (extra field) ''media_type'')
             \<or> dict_get (extra field) ''media_type'' = RequestEncodingType_JSON)
        \<and> loads X (body request) = None \<longrightarrow>
      get_request_data X request field s
        = (Inl JSONDecodeError, s\<lparr>body_reads := Suc (body_reads s)\<rparr>)
      \<and> (kind request = Request \<and> (''data'', field) \<in> set flds \<longrightarrow>
           (\<exists>e s'. get_model_kwargs_from_connection X request flds s = (Inl e, s'))))"
proof -
  have a: "form_value X (FormStr v) = VStr v
           \<and> values_loop X (items @ [(key, FormStr v)]) d
               = store_value (values_loop X items d) key (VStr v)"
    if "loads X v = None"
    using that by (simp add: form_value_def values_loop_append)
  have b: "fst (get_request_data X request field s)
        = Inr (handle_multipart X (dict_get (extra field) ''media_type'') (form request) field)"
    if "lower (http_method request) \<noteq> HttpMethod_GET"
      "truthy (dict_get (extra field) ''media_type'')"
      "dict_get (extra field) ''media_type'' \<noteq> RequestEncodingType_JSON"
    using that by (simp add: get_request_data_def Let_def)
  have c: "get_request_data X request field t
        = (Inl JSONDecodeError, t\<lparr>body_reads := Suc (body_reads t)\<rparr>)"
    if "lower (http_method request) \<noteq> HttpMethod_GET"
      "\<not> truthy (dict_get (extra field) ''media_type'')
         \<or> dict_get (extra field) ''media_type'' = RequestEncodingType_JSON"
      "loads X (body request) = None" for t
    using that by (auto simp: get_request_data_def Let_def)
  have e: "\<exists>e s'. get_model_kwargs_from_connection X request flds s = (Inl e, s')"
    if m: "lower (http_method request) \<noteq> HttpMethod_GET"
      and j: "\<not> truthy (dict_get (extra field) ''media_type'')
         \<or> dict_get (extra field) ''media_type'' = RequestEncodingType_JSON"
      and l: "loads X (body request) = None"
      and k: "kind request = Request" and f: "(''data'', field) \<in> set flds"
  proof (cases "parse_query_params X request")
    case (Inl e)
    then show ?thesis by (simp add: get_model_kwargs_from_connection_def)
  next
    case (Inr qp)
    have "\<exists>e s'. kwargs_loop X request qp (dict_of_items (headers request) []) flds [] s
             = (Inl e, s')"
      using f by (rule kwargs_loop_raises) (simp add: field_value_def k c [OF m j l])
    then show ?thesis using Inr by (simp add: get_model_kwargs_from_connection_def)
  qed
  show ?thesis using a b c e by blast
qed

theorem C7_form_decode_swallowed_body_decode_fatal_witness:
  "values_loop demo_externals ([(''n'', FormStr ''1'')] @ [(''n'', FormStr ''{oops'')]) []
     = [(''n'', VList [VInt 1, VStr ''{oops''])]
   \<and> get_request_data demo_externals (demo_request\<lparr>body := ''{oops''\<rparr>) json_field io0
     = (Inl JSONDecodeError, io0\<lparr>body_reads := Suc 0\<rparr>)
   \<and> (\<exists>e s'. get_model_kwargs_from_connection demo_externals (demo_request\<lparr>body := ''{oops''\<rparr>)
                 [(''query'', json_field), (''data'', json_field)] io0 = (Inl e, s'))
   \<and> fst (get_request_data demo_externals demo_request upload_field io0)
     = Inr (VFile ''a.txt'')"
proof -
  let ?r = "demo_request\<lparr>body := ''{oops''\<rparr>"
  have l: "loads demo_externals ''{oops'' = None"
    by (simp add: demo_externals_def demo_loads_def)
  have g: "lower (http_method ?r) \<noteq> HttpMethod_GET" "lower (http_method demo_request) \<noteq> HttpMethod_GET"
    by (simp_all add: demo_request_def lower_POST)
  have j: "\<not> truthy (dict_get (extra json_field) ''media_type'')"
    by (simp add: json_field_def dict_get_def)
  have b: "loads demo_externals (body ?r) = None" using l by simp
  have k: "kind ?r = Request" "(''data'', json_field) \<in> set [(''query'', json_field), (''data'', json_field)]"
    by (simp_all add: demo_request_def)
  have u: "truthy (dict_get (extra upload_field) ''media_type'')"
    "dict_get (extra upload_field) ''media_type'' \<noteq> RequestEncodingType_JSON"
    by (simp_all add: upload_field_def dict_get_def RequestEncodingType_MULTI_PART_def
        RequestEncodingType_JSON_def)
  have h: "handle_multipart demo_externals (dict_get (extra upload_field) ''media_type'')
             (form demo_request) upload_field = VFile ''a.txt''"
    by (simp add: handle_multipart_def upload_field_def demo_request_def dict_get_def
        store_value_def form_value_def dict_values_def)
  have s1: "store_value (values_loop demo_externals [(''n'', FormStr ''1'')] []) ''n'' (VStr ''{oops'')
     = [(''n'', VList [VInt 1, VStr ''{oops''])]"
    by (simp add: store_value_def form_value_def dict_get_def demo_externals_def demo_loads_def)
  show ?thesis
    using C7_form_decode_swallowed_body_decode_fatal [of demo_externals "''{oops''"
        "[(''n'', FormStr ''1'')]" "''n''" "[]" ?r json_field io0
        "[(''query'', json_field), (''data'', json_field)]"]
      C7_form_decode_swallowed_body_decode_fatal [of demo_externals "''{oops''"
        "[]" "''n''" "[]" demo_request upload_field io0 "[]"]
      l g j b k u h s1
    by (simp add: io0_def)
qed

section \<open>Kwargs builder: keys and bindings\<close>

lemma keys_Nil: "keys [] = []"
  by (simp add: keys_def)

lemma keys_Cons: "keys ((k, v) # d) = k # keys d"
  by (simp add: keys_def)

lemma kwargs_loop_keys:
  "kwargs_loop X conn q h flds kw0 s = (Inr kw, s')
     \<Longrightarrow> set (keys kw) = set (keys kw0) \<union> set (keys flds)
         \<and> (distinct (keys kw0) \<longrightarrow> distinct (keys kw))"
proof (induction flds arbitrary: kw0 s)
  case Nil
  then show ?case by (simp add: keys_def)
next
  case (Cons nf rest)
  obtain n f where nf: "nf = (n, f)" by (cases nf)
  obtain r s1 where fv: "field_value X conn q h n f s = (r, s1)" by (cases "field_value X conn q h n f s")
  show ?case
  proof (cases r)
    case (Inl e)
    then show ?thesis using Cons.prems nf fv by simp
  next
    case (Inr v)
    then have "kwargs_loop X conn q h rest (dict_set kw0 n v) s1 = (Inr kw, s')"
      using Cons.prems nf fv by simp
    from Cons.IH [OF this] show ?thesis
      using nf by (auto simp: set_keys_dict_set distinct_keys_dict_set keys_Cons)
  qed
qed

lemma kwargs_loop_binds:
  "kwargs_loop X conn q h flds kw0 s = (Inr kw, s') \<Longrightarrow> map_of kw name = Some v
     \<Longrightarrow> (name \<notin> set (keys flds) \<and> map_of kw0 name = Some v)
         \<or> (\<exists>f t t'. (name, f) \<in> set flds \<and> field_value X conn q h name f t = (Inr v, t'))"
proof (induction flds arbitrary: kw0 s)
  case Nil
  then show ?case by (simp add: keys_Nil)
next
  case (Cons nf rest)
  obtain n f where nf: "nf = (n, f)" by (cases nf)
  obtain r s1 where fv: "field_value X conn q h n f s = (r, s1)" by (cases "field_value X conn q h n f s")
  show ?case
  proof (cases r)
    case (Inl e)
    then show ?thesis using Cons.prems nf fv by simp
  next
    case (Inr v0)
    then have run: "kwargs_loop X conn q h rest (dict_set kw0 n v0) s1 = (Inr kw, s')"
      using Cons.prems nf fv by simp
    from Cons.IH [OF run Cons.prems(2)]
    consider (old) "name \<notin> set (keys rest)" "map_of (dict_set kw0 n v0) name = Some v"
      | (new) "\<exists>f t t'. (name, f) \<in> set rest \<and> field_value X conn q h name f t = (Inr v, t')"
      by blast
    then show ?thesis
    proof cases
      case old
      show ?thesis
      proof (cases "name = n")
        case True
        then have "v = v0" using old(2) by (simp add: map_of_dict_set)
        then have "(name, f) \<in> set (nf # rest) \<and> field_value X conn q h name f s = (Inr v, s1)"
          using True nf fv Inr by simp
        then show ?thesis by blast
      next
        case False
        then show ?thesis using old nf by (simp add: map_of_dict_set keys_Cons)
      qed
    next
      case new
      then show ?thesis by auto
    qed
  qed
qed

lemma key_bound: "name \<in> set (keys d) \<Longrightarrow> \<exists>v. map_of d name = Some v"
  by (induction d) (auto simp: keys_def)

lemma builder_binds:
  assumes run: "get_model_kwargs_from_connection X conn flds s = (Inr kw, s')"
    and name: "name \<in> set (keys flds)"
  shows "\<exists>v q h f t t'. map_of kw name = Some v \<and> (name, f) \<in> set flds
            \<and> field_value X conn q h name f t = (Inr v, t')"
proof -
  obtain q where q: "parse_query_params X conn = Inr q"
    and loop: "kwargs_loop X conn q (dict_of_items (headers conn) []) flds [] s = (Inr kw, s')"
    using run by (auto simp: get_model_kwargs_from_connection_def split: sum.splits)
  have "name \<in> set (keys kw)" using kwargs_loop_keys [OF loop] name by simp
  then obtain v where v: "map_of kw name = Some v" using key_bound by blast
  from kwargs_loop_binds [OF loop v] name
  obtain f t t' where "(name, f) \<in> set flds"
    "field_value X conn q (dict_of_items (headers conn) []) name f t = (Inr v, t')"
    by auto
  then show ?thesis using v by blast
qed

text \<open>
  C8. The \<open>request\<close> field is bound to the connection itself when the connection is a
  \<open>Request\<close> and raises \<open>ImproperlyConfiguredException\<close> otherwise; the \<open>socket\<close> field is
  bound to the connection itself when it is a \<open>WebSocket\<close> and raises
  \<open>ImproperlyConfiguredException\<close> otherwise; the \<open>data\<close> field raises
  \<open>ImproperlyConfiguredException\<close> unless the connection is a \<open>Request\<close>. Hence a builder
  run that returns normally had the allowed variant for each of these fields of its field
  set, and bound \<open>request\<close> and \<open>socket\<close> to the connection.
\<close>

theorem C8_variant_checks:
  "field_value X conn q h ''request'' field s =
     (if kind conn = Request then (Inr (Conn conn), s)
      else (Inl (ImproperlyConfiguredException
                   ''The 'request' kwarg is not supported with websocket handlers''), s))
   \<and> field_value X conn q h ''socket'' field s =
     (if kind conn = WebSocket then (Inr (Conn conn), s)
      else (Inl (ImproperlyConfiguredException
                   ''The 'socket' kwarg is not supported with http handlers''), s))
   \<and> (kind conn \<noteq> Request \<longrightarrow>
        field_value X conn q h ''data'' field s =
          (Inl (ImproperlyConfiguredException
                  ''The 'data' kwarg is not supported with websocket handlers''), s))
   \<and> (get_model_kwargs_from_connection X conn flds s = (Inr kw, s') \<longrightarrow>
        (''request'' \<in> set (keys flds) \<longrightarrow>
           kind conn = Request \<and> map_of kw ''request'' = Some (Conn conn))
        \<and> (''socket'' \<in> set (keys flds) \<longrightarrow>
           kind conn = WebSocket \<and> map_of kw ''socket'' = Some (Conn conn))
        \<and> (''data'' \<in> set (keys flds) \<longrightarrow> kind conn = Request))"
proof -
  have r: "\<And>q h f t. field_value X conn q h ''request'' f t =
     (if kind conn = Request then (Inr (Conn conn), t)
      else (Inl (ImproperlyConfiguredException
                   ''The 'request' kwarg is not supported with websocket handlers''), t))"
    by (simp add: field_value_def)
  have w: "\<And>q h f t. field_value X conn q h ''socket'' f t =
     (if kind conn = WebSocket then (Inr (Conn conn), t)
      else (Inl (ImproperlyConfiguredException
                   ''The 'socket' kwarg is not supported with http handlers''), t))"
    by (simp add: field_value_def)
  have d: "\<And>q h f t. kind conn \<noteq> Request \<Longrightarrow>
        field_value X conn q h ''data'' f t =
          (Inl (ImproperlyConfiguredException
                  ''The 'data' kwarg is not supported with websocket handlers''), t)"
    by (simp add: field_value_def)
  have b: "(''request'' \<in> set (keys flds) \<longrightarrow>
           kind conn = Request \<and> map_of kw ''request'' = Some (Conn conn))
        \<and> (''socket'' \<in> set (keys flds) \<longrightarrow>
           kind conn = WebSocket \<and> map_of kw ''socket'' = Some (Conn conn))
        \<and> (''data'' \<in> set (keys flds) \<longrightarrow> kind conn = Request)"
    if run: "get_model_kwargs_from_connection X conn flds s = (Inr kw, s')"
  proof -
    have 1: "kind conn = Request \<and> map_of kw ''request'' = Some (Conn conn)"
      if "''request'' \<in> set (keys flds)"
    proof -
      from builder_binds [OF run that] obtain v q h f t t' where
        "map_of kw ''request'' = Some v" "field_value X conn q h ''request'' f t = (Inr v, t')"
        by blast
      then show ?thesis by (auto simp: r split: if_splits)
    qed
    have 2: "kind conn = WebSocket \<and> map_of kw ''socket'' = Some (Conn conn)"
      if "''socket'' \<in> set (keys flds)"
    proof -
      from builder_binds [OF run that] obtain v q h f t t' where
        "map_of kw ''socket'' = Some v" "field_value X conn q h ''socket'' f t = (Inr v, t')"
        by blast
      then show ?thesis by (auto simp: w split: if_splits)
    qed
    have 3: "kind conn = Request" if "''data'' \<in> set (keys flds)"
    proof -
      from builder_binds [OF run that] obtain v q h f t t' where
        "field_value X conn q h ''data'' f t = (Inr v, t')"
        by blast
      then show ?thesis using d by force
    qed
    show ?thesis using 1 2 3 by blast
  qed
  show ?thesis using r w d b by simp
qed

lemma demo_builder_request:
  "get_model_kwargs_from_connection demo_externals demo_request
     [(''request'', json_field), (''data'', json_field)] io0
   = (Inr [(''request'', Conn demo_request), (''data'', Val (VDict [(''id'', VInt 5)]))],
      io0\<lparr>body_reads := Suc 0, json_cache := Some (VDict [(''id'', VInt 5)])\<rparr>)"
  by (simp add: get_model_kwargs_from_connection_def parse_query_params_def demo_externals_def
      demo_request_def plain_qsl_def query_param_reducer_def dict_get_def true_values_def
      false_values_def field_value_def get_request_data_def lower_def lower_char_def
      HttpMethod_GET_def json_field_def demo_loads_def io0_def)

theorem C8_variant_checks_witness:
  "field_value demo_externals (demo_request\<lparr>kind := WebSocket\<rparr>) [] [] ''request'' json_field io0
     = (Inl (ImproperlyConfiguredException
               ''The 'request' kwarg is not supported with websocket handlers''), io0)
   \<and> field_value demo_externals (demo_request\<lparr>kind := WebSocket\<rparr>) [] [] ''socket'' json_field io0
     = (Inr (Conn (demo_request\<lparr>kind := WebSocket\<rparr>)), io0)
   \<and> field_value demo_externals (demo_request\<lparr>kind := WebSocket\<rparr>) [] [] ''data'' json_field io0
     = (Inl (ImproperlyConfiguredException
               ''The 'data' kwarg is not supported with websocket handlers''), io0)
   \<and> kind demo_request = Request
   \<and> map_of [(''request'', Conn demo_request), (''data'', Val (VDict [(''id'', VInt 5)]))]
        ''request'' = Some (Conn demo_request)"
proof -
  have k: "kind (demo_request\<lparr>kind := WebSocket\<rparr>) \<noteq> Request"
    "kind (demo_request\<lparr>kind := WebSocket\<rparr>) = WebSocket"
    by simp_all
  have m: "''request'' \<in> set (keys [(''request'', json_field), (''data'', json_field)])"
    by (simp add: keys_def)
  show ?thesis
    using C8_variant_checks [of demo_externals "demo_request\<lparr>kind := WebSocket\<rparr>" "[]" "[]"
        json_field io0]
      C8_variant_checks [of demo_externals demo_request "[]" "[]" json_field io0
        "[(''request'', json_field), (''data'', json_field)]"
        "[(''request'', Conn demo_request), (''data'', Val (VDict [(''id'', VInt 5)]))]"
        "io0\<lparr>body_reads := Suc 0, json_cache := Some (VDict [(''id'', VInt 5)])\<rparr>"]
      demo_builder_request k m
    by simp
qed

section \<open>Dependency resolver: domain of the result and shadowing\<close>

lemma keys_dict_merge: "set (keys (dict_merge a b)) = set (keys a) \<union> set (keys b)"
  by (induction b arbitrary: a) (auto simp: set_keys_dict_set keys_Cons keys_Nil)

lemma distinct_keys_dict_merge: "distinct (keys a) \<Longrightarrow> distinct (keys (dict_merge a b))"
  by (induction b arbitrary: a) (auto simp: distinct_keys_dict_set)

lemma map_of_dict_merge:
  "distinct (keys b) \<Longrightarrow> map_of (dict_merge a b) = map_of a ++ map_of b"
proof (induction b arbitrary: a)
  case Nil
  then show ?case by simp
next
  case (Cons kv b)
  obtain k v where kv: "kv = (k, v)" by (cases kv)
  have fresh: "map_of b k = None"
    using Cons.prems kv by (simp add: keys_def map_of_eq_None_iff)
  have "distinct (keys b)" using Cons.prems by (simp add: keys_def)
  then have "map_of (dict_merge (dict_set a k v) b) = map_of (dict_set a k v) ++ map_of b"
    by (rule Cons.IH)
  then show ?case
    using fresh kv by (auto simp: map_of_dict_set fun_eq_iff map_add_def split: option.splits)
qed

lemma provider_loop_keys:
  "provider_loop resolve flds ps deps s = Some (Inr d, s')
     \<Longrightarrow> set (keys d) = set (keys deps) \<union> (set (keys ps) \<inter> set (keys flds))
         \<and> (distinct (keys deps) \<longrightarrow> distinct (keys d))"
proof (induction ps arbitrary: deps s)
  case Nil
  then show ?case by (simp add: keys_Nil)
next
  case (Cons kp rest)
  obtain key p where kp: "kp = (key, p)" by (cases kp)
  show ?case
  proof (cases "key \<in> set (keys flds)")
    case False
    then have "provider_loop resolve flds rest deps s = Some (Inr d, s')"
      using Cons.prems kp by simp
    from Cons.IH [OF this] show ?thesis using False kp by (auto simp: keys_Cons)
  next
    case True
    then obtain v s2 where
      run: "provider_loop resolve flds rest (dict_set deps key v) s2 = Some (Inr d, s')"
      using Cons.prems kp
      by (auto split: option.splits sum.splits prod.splits)
    from Cons.IH [OF run] show ?thesis
      using True kp by (auto simp: keys_Cons set_keys_dict_set distinct_keys_dict_set)
  qed
qed

lemma provider_loop_binds:
  "provider_loop resolve flds ps deps s = Some (Inr d, s') \<Longrightarrow> map_of d name = Some v
     \<Longrightarrow> map_of deps name = Some v
         \<or> (\<exists>p args t t'. (name, p) \<in> set ps \<and> call p args t = (Inr v, t'))"
proof (induction ps arbitrary: deps s)
  case Nil
  then show ?case by simp
next
  case (Cons kp rest)
  obtain key p where kp: "kp = (key, p)" by (cases kp)
  show ?case
  proof (cases "key \<in> set (keys flds)")
    case False
    then have "provider_loop resolve flds rest deps s = Some (Inr d, s')"
      using Cons.prems kp by simp
    from Cons.IH [OF this Cons.prems(2)] show ?thesis by auto
  next
    case True
    then obtain args s1 v0 s2 where
      c: "call p args s1 = (Inr v0, s2)" and
      run: "provider_loop resolve flds rest (dict_set deps key v0) s2 = Some (Inr d, s')"
      using Cons.prems kp
      by (auto split: option.splits sum.splits prod.splits)
    from Cons.IH [OF run Cons.prems(2)]
    consider (old) "map_of (dict_set deps key v0) name = Some v"
      | (new) "\<exists>p args t t'. (name, p) \<in> set rest \<and> call p args t = (Inr v, t')"
      by blast
    then show ?thesis
    proof cases
      case old
      show ?thesis
      proof (cases "name = key")
        case True
        then have "v = v0" using old by (simp add: map_of_dict_set)
        then have "(name, p) \<in> set (kp # rest) \<and> call p args s1 = (Inr v, s2)"
          using True kp c by simp
        then show ?thesis by blast
      next
        case False
        then show ?thesis using old by (simp add: map_of_dict_set)
      qed
    next
      case new
      then show ?thesis by auto
    qed
  qed
qed

lemma builder_keys:
  "get_model_kwargs_from_connection X conn flds s = (Inr kw, s')
     \<Longrightarrow> set (keys kw) = set (keys flds) \<and> distinct (keys kw)"
proof -
  assume run: "get_model_kwargs_from_connection X conn flds s = (Inr kw, s')"
  then obtain q where
    loop: "kwargs_loop X conn q (dict_of_items (headers conn) []) flds [] s = (Inr kw, s')"
    by (auto simp: get_model_kwargs_from_connection_def split: sum.splits)
  from kwargs_loop_keys [OF loop] show ?thesis by (simp add: keys_Nil)
qed

lemma resolve_parts:
  assumes "resolve_signature_kwargs n X conn provs flds s = Some (Inr kw, s')"
  obtains m deps s1 ck where "n = Suc m"
    "provider_loop (resolve_signature_kwargs m X conn provs) flds provs [] s = Some (Inr deps, s1)"
    "get_model_kwargs_from_connection X conn
       (filter (\<lambda>kv. fst kv \<notin> set (keys deps)) flds) s1 = (Inr ck, s')"
    "kw = dict_merge ck deps"
proof (cases n)
  case 0
  then show ?thesis using assms by simp
next
  case (Suc m)
  then show ?thesis
    using assms that
    by (auto split: option.splits sum.splits prod.splits)
qed

lemma keys_filter: "set (keys (filter (\<lambda>kv. fst kv \<notin> A) flds)) = set (keys flds) - A"
  by (auto simp: keys_def)

text \<open>
  C9. When \<open>resolve_signature_kwargs\<close> returns normally, the keys of the resulting kwargs
  are exactly the names of the field set, each key occurs once, and every field name is
  bound to a value. The same holds for the kwargs builder alone.
\<close>

theorem C9_resolved_kwargs_domain:
  "(resolve_signature_kwargs n X conn provs flds s = Some (Inr kw, s') \<longrightarrow>
      set (keys kw) = set (keys flds) \<and> distinct (keys kw)
      \<and> (\<forall>name \<in> set (keys flds). \<exists>v. map_of kw name = Some v))
   \<and> (get_model_kwargs_from_connection X conn flds s = (Inr kw, s') \<longrightarrow>
      set (keys kw) = set (keys flds) \<and> distinct (keys kw)
      \<and> (\<forall>name \<in> set (keys flds). \<exists>v. map_of kw name = Some v))"
proof -
  have r: "set (keys kw) = set (keys flds) \<and> distinct (keys kw)"
    if run: "resolve_signature_kwargs n X conn provs flds s = Some (Inr kw, s')"
  proof -
    from run obtain m deps s1 ck where
      loop: "provider_loop (resolve_signature_kwargs m X conn provs) flds provs [] s
               = Some (Inr deps, s1)"
      and build: "get_model_kwargs_from_connection X conn
               (filter (\<lambda>kv. fst kv \<notin> set (keys deps)) flds) s1 = (Inr ck, s')"
      and kw: "kw = dict_merge ck deps"
      by (rule resolve_parts)
    have d: "set (keys deps) = set (keys provs) \<inter> set (keys flds)"
      using provider_loop_keys [OF loop] by (simp add: keys_Nil)
    have c: "set (keys ck) = set (keys flds) - set (keys deps)" "distinct (keys ck)"
      using builder_keys [OF build] by (simp_all add: keys_filter)
    show ?thesis
      using d c kw by (auto simp: keys_dict_merge distinct_keys_dict_merge)
  qed
  have b: "set (keys kw) = set (keys flds) \<and> distinct (keys kw)"
    if "get_model_kwargs_from_connection X conn flds s = (Inr kw, s')"
    using that by (rule builder_keys)
  have v: "\<forall>name \<in> set (keys flds). \<exists>v. map_of kw name = Some v"
    if "set (keys kw) = set (keys flds)"
    using that key_bound by blast
  show ?thesis using r b v by blast
qed

lemma demo_resolve_dep:
  "resolve_signature_kwargs (Suc (Suc 0)) demo_externals demo_request [(''dep'', data_provider)]
     [(''page'', page_field), (''dep'', json_field), (''data'', json_field)] io0
   = Some (Inr [(''page'', Val (VStr ''2'')), (''data'', Val (VDict [(''id'', VInt 5)])),
                (''dep'', Val (VStr ''provided''))],
           io0\<lparr>body_reads := Suc 0, json_cache := Some (VDict [(''id'', VInt 5)])\<rparr>)"
  by (simp add: get_model_kwargs_from_connection_def parse_query_params_def demo_externals_def
      demo_request_def plain_qsl_def query_param_reducer_def dict_get_def true_values_def
      false_values_def field_value_def get_request_data_def lower_def lower_char_def
      HttpMethod_GET_def json_field_def demo_loads_def io0_def keys_def data_provider_def
      page_field_def get_connection_parameters_def lookup_parameter_def)

theorem C9_resolved_kwargs_domain_witness:
  "set (keys [(''page'', Val (VStr ''2'')), (''data'', Val (VDict [(''id'', VInt 5)])),
              (''dep'', Val (VStr ''provided''))])
     = set (keys [(''page'', page_field), (''dep'', json_field), (''data'', json_field)])
   \<and> distinct (keys [(''page'', Val (VStr ''2'')), (''data'', Val (VDict [(''id'', VInt 5)])),
              (''dep'', Val (VStr ''provided''))])"
  using C9_resolved_kwargs_domain [of "Suc (Suc 0)" demo_externals demo_request
      "[(''dep'', data_provider)]"
      "[(''page'', page_field), (''dep'', json_field), (''data'', json_field)]" io0
      "[(''page'', Val (VStr ''2'')), (''data'', Val (VDict [(''id'', VInt 5)])),
        (''dep'', Val (VStr ''provided''))]"
      "io0\<lparr>body_reads := Suc 0, json_cache := Some (VDict [(''id'', VInt 5)])\<rparr>"]
    demo_resolve_dep
  by blast

text \<open>
  C1 (as amended). The resolver calls the provider of every field name found in the
  provider table, leaves those names out of the field set it hands to the kwargs builder,
  and merges the providers' results over the builder's. So when resolution returns
  normally, a reserved field name with a provider of the same name is bound to a value
  that this provider's call returned: the provider shadows the reserved name.
\<close>

theorem C1_provider_shadows_reserved_name:
  assumes run: "resolve_signature_kwargs n X conn provs flds s = Some (Inr kw, s')"
    and reserved: "name \<in> set reserved_names"
    and field: "name \<in> set (keys flds)"
    and registered: "name \<in> set (keys provs)"
  shows "\<exists>p args t t' v. (name, p) \<in> set provs \<and> call p args t = (Inr v, t')
           \<and> map_of kw name = Some v"
proof -
  from run obtain m deps s1 ck where
    loop: "provider_loop (resolve_signature_kwargs m X conn provs) flds provs [] s
             = Some (Inr deps, s1)"
    and kw: "kw = dict_merge ck deps"
    by (rule resolve_parts)
  have k: "set (keys deps) = set (keys provs) \<inter> set (keys flds)" and d: "distinct (keys deps)"
    using provider_loop_keys [OF loop] by (simp_all add: keys_Nil)
  have "name \<in> set (keys deps)" using k field registered by simp
  then obtain v where v: "map_of deps name = Some v" using key_bound by blast
  have bound: "map_of kw name = Some v"
    using v d by (simp add: kw map_of_dict_merge)
  from provider_loop_binds [OF loop v]
  obtain p args t t' where "(name, p) \<in> set provs" "call p args t = (Inr v, t')"
    by auto
  then show ?thesis using bound by blast
qed

lemma demo_resolve_data:
  "resolve_signature_kwargs (Suc (Suc 0)) demo_externals demo_request [(''data'', data_provider)]
     [(''data'', json_field)] io0
   = Some (Inr [(''data'', Val (VStr ''provided''))], io0)"
  by (simp add: get_model_kwargs_from_connection_def parse_query_params_def demo_externals_def
      demo_request_def plain_qsl_def query_param_reducer_def dict_get_def true_values_def
      false_values_def keys_def data_provider_def)

text \<open>
  C1 as stated fails: with the field \<open>data\<close> and a provider registered as \<open>data\<close>, the
  resolved kwargs bind \<open>data\<close> to the provider's result and the body is never read,
  although the \<open>data\<close> branch of the builder would give the decoded body.
\<close>

theorem C1_reserved_name_counterexample:
  "resolve_signature_kwargs (Suc (Suc 0)) demo_externals demo_request [(''data'', data_provider)]
     [(''data'', json_field)] io0
   = Some (Inr [(''data'', Val (VStr ''provided''))], io0)
   \<and> map_of [(''data'', Val (VStr ''provided''))] ''data''
       \<noteq> Some (Val (VDict [(''id'', VInt 5)]))
   \<and> field_value demo_externals demo_request [] [] ''data'' json_field io0
     = (Inr (Val (VDict [(''id'', VInt 5)])),
        io0\<lparr>body_reads := Suc 0, json_cache := Some (VDict [(''id'', VInt 5)])\<rparr>)
   \<and> call data_provider [] io0 = (Inr (Val (VStr ''provided'')), io0)"
  by (simp add: get_model_kwargs_from_connection_def parse_query_params_def demo_externals_def
      demo_request_def plain_qsl_def query_param_reducer_def dict_get_def true_values_def
      false_values_def keys_def data_provider_def field_value_def get_request_data_def
      lower_def lower_char_def HttpMethod_GET_def json_field_def demo_loads_def io0_def)

theorem C1_provider_shadows_reserved_name_witness:
  "\<exists>p args t t' v. (''data'', p) \<in> set [(''data'', data_provider)]
       \<and> call p args t = (Inr v, t')
       \<and> map_of [(''data'', Val (VStr ''provided''))] ''data'' = Some v"
proof -
  have r: "''data'' \<in> set reserved_names" by (simp add: reserved_names_def)
  have f: "''data'' \<in> set (keys [(''data'', json_field)])" by (simp add: keys_def)
  have p: "''data'' \<in> set (keys [(''data'', data_provider)])" by (simp add: keys_def)
  show ?thesis
    by (rule C1_provider_shadows_reserved_name [OF demo_resolve_data r f p])
qed

section \<open>Connection parameter extractor: precedence, defaults and \<open>required\<close>\<close>

lemma select_source_truthy:
  "select_source conn ex q h = Some (pname, source) \<Longrightarrow> truthy pname \<and> keys ex \<noteq> []"
  by (auto simp: select_source_def split: if_splits)

lemma extractor_selected:
  assumes "field_name \<notin> set (keys (path_params conn))"
    and "field_name \<notin> set (keys q)"
    and "select_source conn (extra field) q h = Some (pname, source)"
  shows "get_connection_parameters conn field_name field q h
           = lookup_parameter (extra field)
               (case default field of None \<Rightarrow> VNone | Some d \<Rightarrow> d) pname source"
  using assms select_source_truthy [OF assms(3)]
  by (simp add: get_connection_parameters_def Let_def)

lemma subscript_found: "subscript d a = Inr w \<Longrightarrow> d \<noteq> []"
  by (cases a) auto

lemma lookup_parameter_found:
  "truthy pname \<Longrightarrow> ''required'' \<in> set (keys ex) \<Longrightarrow> subscript source pname = Inr v
     \<Longrightarrow> lookup_parameter ex dflt pname source = Inr v"
  using subscript_found [of source pname v] by (simp add: lookup_parameter_def)

text \<open>
  C10 (as amended). When extraction reaches the extras and selects a source that is not
  empty, it reads \<open>extra["required"]\<close> before it looks up the alias: the result is the
  plain \<open>KeyError\<close> for \<open>required\<close>, which is neither a \<open>ValidationException\<close> nor an
  \<open>ImproperlyConfiguredException\<close>, exactly when the extras have no \<open>required\<close> key,
  whether or not the alias is present in the source.
\<close>

theorem C10_required_read:
  assumes "field_name \<notin> set (keys (path_params conn))"
    and "field_name \<notin> set (keys query_params)"
    and "select_source conn (extra field) query_params header_params = Some (pname, source)"
    and "source \<noteq> []"
  shows "(get_connection_parameters conn field_name field query_params header_params
            = Inl (KeyError ''required''))
         = (''required'' \<notin> set (keys (extra field)))"
proof -
  have t: "truthy pname" using select_source_truthy [OF assms(3)] by simp
  show ?thesis
  proof (cases "''required'' \<in> set (keys (extra field))")
    case False
    then show ?thesis
      using t assms(4) by (simp add: extractor_selected [OF assms(1-3)] lookup_parameter_def)
  next
    case True
    have "lookup_parameter (extra field) dflt pname source \<noteq> Inl (KeyError ''required'')" for dflt
    proof (cases "subscript source pname")
      case (Inr v)
      then show ?thesis using True t assms(4) by (simp add: lookup_parameter_def)
    next
      case (Inl e)
      then show ?thesis using True t assms(4) by (cases e) (simp_all add: lookup_parameter_def)
    qed
    then show ?thesis using True by (simp add: extractor_selected [OF assms(1-3)])
  qed
qed

lemma select_source_query:
  "''query'' \<in> set (keys ex) \<Longrightarrow> truthy (dict_get ex ''query'')
     \<Longrightarrow> select_source conn ex q h = Some (dict_get ex ''query'', q)"
  by (simp add: select_source_def)

lemma select_source_header:
  "\<not> (''query'' \<in> set (keys ex) \<and> truthy (dict_get ex ''query''))
     \<Longrightarrow> ''header'' \<in> set (keys ex) \<Longrightarrow> truthy (dict_get ex ''header'')
     \<Longrightarrow> select_source conn ex q h = Some (dict_get ex ''header'', h)"
  by (auto simp: select_source_def)

lemma select_source_cookie:
  "\<not> (''query'' \<in> set (keys ex) \<and> truthy (dict_get ex ''query''))
     \<Longrightarrow> \<not> (''header'' \<in> set (keys ex) \<and> truthy (dict_get ex ''header''))
     \<Longrightarrow> ''cookie'' \<in> set (keys ex) \<Longrightarrow> truthy (dict_get ex ''cookie'')
     \<Longrightarrow> select_source conn ex q h = Some (dict_get ex ''cookie'', cookies conn)"
  by (auto simp: select_source_def)

text \<open>
  C4. A path parameter of the field's name is returned first, then a query parameter of
  the field's name. Only then are the extras consulted, in the order query, header,
  cookie: the first of them with a truthy alias decides, the result does not depend on
  the other two sources, and an alias found in the chosen source is returned (the alias
  is looked up, not the field name).
\<close>

theorem C4_extraction_order:
  "(field_name \<in> set (keys (path_params conn)) \<longrightarrow>
      get_connection_parameters conn field_name field q h
        = Inr (dict_get (path_params conn) field_name))
   \<and> (field_name \<notin> set (keys (path_params conn)) \<and> field_name \<in> set (keys q) \<longrightarrow>
      get_connection_parameters conn field_name field q h = Inr (dict_get q field_name))
   \<and> (field_name \<notin> set (keys (path_params conn)) \<and> field_name \<notin> set (keys q)
        \<and> ''query'' \<in> set (keys (extra field)) \<and> truthy (dict_get (extra field) ''query'') \<longrightarrow>
      get_connection_parameters conn field_name field q h
        = get_connection_parameters (conn\<lparr>cookies := c'\<rparr>) field_name field q h'
      \<and> (''required'' \<in> set (keys (extra field))
           \<and> subscript q (dict_get (extra field) ''query'') = Inr v \<longrightarrow>
         get_connection_parameters conn field_name field q h = Inr v))
   \<and> (field_name \<notin> set (keys (path_params conn)) \<and> field_name \<notin> set (keys q)
        \<and> field_name \<notin> set (keys q')
        \<and> \<not> (''query'' \<in> set (keys (extra field)) \<and> truthy (dict_get (extra field) ''query''))
        \<and> ''header'' \<in> set (keys (extra field)) \<and> truthy (dict_get (extra field) ''header'') \<longrightarrow>
      get_connection_parameters conn field_name field q h
        = get_connection_parameters (conn\<lparr>cookies := c'\<rparr>) field_name field q' h
      \<and> (''required'' \<in> set (keys (extra field))
           \<and> subscript h (dict_get (extra field) ''header'') = Inr v \<longrightarrow>
         get_connection_parameters conn field_name field q h = Inr v))
   \<and> (field_name \<notin> set (keys (path_params conn)) \<and> field_name \<notin> set (keys q)
        \<and> field_name \<notin> set (keys q')
        \<and> \<not> (''query'' \<in> set (keys (extra field)) \<and> truthy (dict_get (extra field) ''query''))
        \<and> \<not> (''header'' \<in> set (keys (extra field)) \<and> truthy (dict_get (extra field) ''header''))
        \<and> ''cookie'' \<in> set (keys (extra field)) \<and> truthy (dict_get (extra field) ''cookie'') \<longrightarrow>
      get_connection_parameters conn field_name field q h
        = get_connection_parameters conn field_name field q' h'
      \<and> (''required'' \<in> set (keys (extra field))
           \<and> subscript (cookies conn) (dict_get (extra field) ''cookie'') = Inr v \<longrightarrow>
         get_connection_parameters conn field_name field q h = Inr v))"
proof -
  let ?ex = "extra field"
  let ?d = "case default field of None \<Rightarrow> VNone | Some d \<Rightarrow> d"
  have 1: "field_name \<in> set (keys (path_params conn)) \<longrightarrow>
      get_connection_parameters conn field_name field q h
        = Inr (dict_get (path_params conn) field_name)"
    by (simp add: get_connection_parameters_def)
  have 2: "field_name \<notin> set (keys (path_params conn)) \<and> field_name \<in> set (keys q) \<longrightarrow>
      get_connection_parameters conn field_name field q h = Inr (dict_get q field_name)"
    by (simp add: get_connection_parameters_def)
  have 3: "get_connection_parameters conn field_name field q h
        = get_connection_parameters (conn\<lparr>cookies := c'\<rparr>) field_name field q h'
      \<and> (''required'' \<in> set (keys ?ex) \<and> subscript q (dict_get ?ex ''query'') = Inr v \<longrightarrow>
         get_connection_parameters conn field_name field q h = Inr v)"
    if p: "field_name \<notin> set (keys (path_params conn))" and n: "field_name \<notin> set (keys q)"
      and k: "''query'' \<in> set (keys ?ex)" and t: "truthy (dict_get ?ex ''query'')"
  proof -
    have a: "get_connection_parameters conn field_name field q h
               = lookup_parameter ?ex ?d (dict_get ?ex ''query'') q"
      by (rule extractor_selected [OF p n select_source_query [OF k t]])
    have p': "field_name \<notin> set (keys (path_params (conn\<lparr>cookies := c'\<rparr>)))" using p by simp
    have b: "get_connection_parameters (conn\<lparr>cookies := c'\<rparr>) field_name field q h'
               = lookup_parameter ?ex ?d (dict_get ?ex ''query'') q"
      by (rule extractor_selected [OF p' n select_source_query [OF k t]])
    show ?thesis using a b t by (simp add: lookup_parameter_found)
  qed
  have 4: "get_connection_parameters conn field_name field q h
        = get_connection_parameters (conn\<lparr>cookies := c'\<rparr>) field_name field q' h
      \<and> (''required'' \<in> set (keys ?ex) \<and> subscript h (dict_get ?ex ''header'') = Inr v \<longrightarrow>
         get_connection_parameters conn field_name field q h = Inr v)"
    if p: "field_name \<notin> set (keys (path_params conn))" and n: "field_name \<notin> set (keys q)"
      and n': "field_name \<notin> set (keys q')"
      and nq: "\<not> (''query'' \<in> set (keys ?ex) \<and> truthy (dict_get ?ex ''query''))"
      and k: "''header'' \<in> set (keys ?ex)" and t: "truthy (dict_get ?ex ''header'')"
  proof -
    have a: "get_connection_parameters conn field_name field q h
               = lookup_parameter ?ex ?d (dict_get ?ex ''header'') h"
      by (rule extractor_selected [OF p n select_source_header [OF nq k t]])
    have p': "field_name \<notin> set (keys (path_params (conn\<lparr>cookies := c'\<rparr>)))" using p by simp
    have b: "get_connection_parameters (conn\<lparr>cookies := c'\<rparr>) field_name field q' h
               = lookup_parameter ?ex ?d (dict_get ?ex ''header'') h"
      by (rule extractor_selected [OF p' n' select_source_header [OF nq k t]])
    show ?thesis using a b t by (simp add: lookup_parameter_found)
  qed
  have 5: "get_connection_parameters conn field_name field q h
        = get_connection_parameters conn field_name field q' h'
      \<and> (''required'' \<in> set (keys ?ex)
           \<and> subscript (cookies conn) (dict_get ?ex ''cookie'') = Inr v \<longrightarrow>
         get_connection_parameters conn field_name field q h = Inr v)"
    if p: "field_name \<notin> set (keys (path_params conn))" and n: "field_name \<notin> set (keys q)"
      and n': "field_name \<notin> set (keys q')"
      and nq: "\<not> (''query'' \<in> set (keys ?ex) \<and> truthy (dict_get ?ex ''query''))"
      and nh: "\<not> (''header'' \<in> set (keys ?ex) \<and> truthy (dict_get ?ex ''header''))"
      and k: "''cookie'' \<in> set (keys ?ex)" and t: "truthy (dict_get ?ex ''cookie'')"
  proof -
    have a: "get_connection_parameters conn field_name field q h
               = lookup_parameter ?ex ?d (dict_get ?ex ''cookie'') (cookies conn)"
      by (rule extractor_selected [OF p n select_source_cookie [OF nq nh k t]])
    have b: "get_connection_parameters conn field_name field q' h'
               = lookup_parameter ?ex ?d (dict_get ?ex ''cookie'') (cookies conn)"
      by (rule extractor_selected [OF p n' select_source_cookie [OF nq nh k t]])
    show ?thesis using a b t by (simp add: lookup_parameter_found)
  qed
  show ?thesis
    apply (intro conjI)
        apply (rule 1)
       apply (rule 2)
      apply (rule impI, elim conjE, rule 3; assumption)
     apply (rule impI, elim conjE, rule 4; assumption)
    apply (rule impI, elim conjE, rule 5; assumption)
    done
qed

text \<open>
  C3. The claim: when the selected alias is absent from its source, extraction raises
  \<open>ValidationException\<close> exactly when the field is required and has no default, and a
  declared default of any value is returned instead. The code tests \<open>not default\<close> after
  mapping \<open>Undefined\<close> to \<open>None\<close>, and guards the lookup by the truth value of the source:
  the required field \<open>limit\<close> with the declared default \<open>0\<close> and the alias \<open>q\<close> absent from
  the query parameters raises, where the same field with the default \<open>10\<close> returns its
  default; and with no query parameters at all the lookup is skipped, so the field
  returns its default \<open>0\<close>, and without a default returns \<open>None\<close> although it is
  required, where one unrelated query parameter makes it raise.
\<close>

theorem C3_falsy_default_raises:
  "get_connection_parameters demo_request ''limit'' limit_field [(''page'', VStr ''2'')] []
     = Inl (ValidationException ''Missing required parameter '' (VStr ''q''))
   \<and> get_connection_parameters demo_request ''limit'' (limit_field\<lparr>default := Some (VInt 10)\<rparr>)
       [(''page'', VStr ''2'')] [] = Inr (VInt 10)
   \<and> get_connection_parameters demo_request ''limit'' limit_field [] [] = Inr (VInt 0)
   \<and> get_connection_parameters demo_request ''limit'' (limit_field\<lparr>default := None\<rparr>)
       [(''page'', VStr ''2'')] []
     = Inl (ValidationException ''Missing required parameter '' (VStr ''q''))
   \<and> get_connection_parameters demo_request ''limit'' (limit_field\<lparr>default := None\<rparr>) [] []
     = Inr VNone"
  by (simp add: get_connection_parameters_def lookup_parameter_def select_source_def
      limit_field_def demo_request_def keys_def dict_get_def)

text \<open>
  C10 as stated fails: with a query alias declared, no \<open>required\<close> key and no query
  parameters at all, the guard \<open>if parameter_name and source\<close> skips the read of
  \<open>extra["required"]\<close> and the default is returned.
\<close>

theorem C10_empty_source_counterexample:
  "select_source demo_request [(''query'', VStr ''q'')] [] [] = Some (VStr ''q'', [])
   \<and> ''required'' \<notin> set (keys [(''query'', VStr ''q'')])
   \<and> get_connection_parameters demo_request ''limit''
        (limit_field\<lparr>extra := [(''query'', VStr ''q'')]\<rparr>) [] [] = Inr (VInt 0)"
  by (simp add: get_connection_parameters_def lookup_parameter_def select_source_def
      limit_field_def demo_request_def keys_def dict_get_def)

theorem C10_required_read_witness:
  "get_connection_parameters demo_request ''limit''
     (limit_field\<lparr>extra := [(''query'', VStr ''page'')]\<rparr>) [(''page'', VStr ''2'')] []
     = Inl (KeyError ''required'')
   \<and> subscript [(''page'', VStr ''2'')] (VStr ''page'') = Inr (VStr ''2'')"
proof -
  have p: "''limit'' \<notin> set (keys (path_params demo_request))"
    by (simp add: demo_request_def keys_def)
  have n: "''limit'' \<notin> set (keys [(''page'', VStr ''2'')])"
    by (simp add: keys_def)
  have s: "select_source demo_request (extra (limit_field\<lparr>extra := [(''query'', VStr ''page'')]\<rparr>))
             [(''page'', VStr ''2'')] [] = Some (VStr ''page'', [(''page'', VStr ''2'')])"
    by (simp add: select_source_def keys_def dict_get_def)
  have e: "[(''page'', VStr ''2'')] \<noteq> ([] :: pydict)" by simp
  have r: "''required'' \<notin> set (keys (extra (limit_field\<lparr>extra := [(''query'', VStr ''page'')]\<rparr>)))"
    by (simp add: keys_def)
  show ?thesis
    using C10_required_read [OF p n s e] r by simp
qed

theorem C4_extraction_order_witness:
  "get_connection_parameters demo_request ''id'' limit_field [(''id'', VStr ''9'')] []
     = Inr (VStr ''7'')
   \<and> get_connection_parameters demo_request ''limit'' limit_field [(''q'', VStr ''5'')]
       [(''x-token'', VStr ''t0'')] = Inr (VStr ''5'')"
proof -
  have p: "''id'' \<in> set (keys (path_params demo_request))"
    "dict_get (path_params demo_request) ''id'' = VStr ''7''"
    "''limit'' \<notin> set (keys (path_params demo_request))"
    by (simp_all add: demo_request_def keys_def dict_get_def)
  have n: "''limit'' \<notin> set (keys [(''q'', VStr ''5'')])" by (simp add: keys_def)
  have k: "''query'' \<in> set (keys (extra limit_field))" "truthy (dict_get (extra limit_field) ''query'')"
    "''required'' \<in> set (keys (extra limit_field))"
    "subscript [(''q'', VStr ''5'')] (dict_get (extra limit_field) ''query'') = Inr (VStr ''5'')"
    by (simp_all add: limit_field_def keys_def dict_get_def)
  show ?thesis
    using C4_extraction_order [of "''id''" demo_request limit_field "[(''id'', VStr ''9'')]" "[]"]
      C4_extraction_order [of "''limit''" demo_request limit_field "[(''q'', VStr ''5'')]"
        "[(''x-token'', VStr ''t0'')]" _ _ "VStr ''5''"]
      p n k
    by simp
qed

end
